theory Spec2Isabelle
  imports Complex_Main "HOL-Library.Multiset"
begin

section \<open>Moonshot Fund API: the request handlers of main.py\<close>

text \<open>
  The handlers of \<^verbatim>\<open>main.py\<close> are embedded as functions over an explicit store.
  An exception is a value of type \<open>exn\<close> and a handler returns \<open>exn + 'a\<close>, with
  \<open>Inl\<close> for the exception that leaves the handler. An amount is an IEEE double, in
  the source and in the store; it is represented by the real number it denotes. The
  handlers do no arithmetic on amounts (\<^verbatim>\<open>float(x)\<close> of a number is that number); the
  one sum, the \<^verbatim>\<open>$sum\<close> of the aggregation, is computed by the store and is a
  component of the store here.
\<close>

subsection \<open>Exceptions\<close>

text \<open>
  \<open>HTTPException\<close> is FastAPI's exception with its status code and detail. The other
  constructors are the exceptions of the libraries the handlers call. The handlers build
  the detail of a 500 answer as \<^verbatim>\<open>str(e)\<close>; the message texts of library exceptions are
  not in the source, so that detail is kept as \<open>StrOf e\<close>.
\<close>

datatype exn =
    HTTPException (status_code: nat) (detail: detail)
  | InvalidId string
  | TypeError
  | ValidationError "string list"
  | PyMongoError string
  | StoreUnavailable
and detail =
    Text string
  | StrOf exn

text \<open>
  \<^verbatim>\<open>except Exception as e: raise HTTPException(status_code=500, detail=str(e))\<close>
\<close>

definition except_Exception :: "exn + 'a \<Rightarrow> exn + 'a" where
  "except_Exception r =
     (case r of
        Inl e \<Rightarrow> Inl (HTTPException 500 (StrOf e))
      | Inr x \<Rightarrow> Inr x)"

text \<open>
  \<^verbatim>\<open>except HTTPException: raise\<close> followed by
  \<^verbatim>\<open>except Exception as e: raise HTTPException(status_code=500, detail=str(e))\<close>
\<close>

definition except_HTTPException :: "exn + 'a \<Rightarrow> exn + 'a" where
  "except_HTTPException r =
     (case r of
        Inl (HTTPException c d) \<Rightarrow> Inl (HTTPException c d)
      | Inl e \<Rightarrow> Inl (HTTPException 500 (StrOf e))
      | Inr x \<Rightarrow> Inr x)"

subsection \<open>Store identifiers\<close>

text \<open>
  \<^verbatim>\<open>bson.ObjectId\<close> built from a text checks that the text has 24 characters and
  passes it to \<^verbatim>\<open>bytes.fromhex\<close>; it raises \<^verbatim>\<open>InvalidId\<close> when the length is not 24
  or \<^verbatim>\<open>bytes.fromhex\<close> fails. \<^verbatim>\<open>bytes.fromhex\<close> reads two hexadecimal digits for
  each byte, in either letter case, and skips ASCII whitespace before and after a byte,
  never between the two digits of one. A text of 24 hexadecimal digits gives twelve bytes;
  a text of 24 characters with whitespace in it is accepted too and gives fewer.
  \<^verbatim>\<open>str\<close> of an ObjectId is the lowercase hexadecimal text of its bytes, and an
  identifier is represented by that text.
\<close>

datatype oid = Oid string

fun str_oid :: "oid \<Rightarrow> string" where
  "str_oid (Oid h) = h"

definition is_hex :: "char \<Rightarrow> bool" where
  "is_hex c = (c \<in> set ''0123456789abcdefABCDEF'')"

definition lower_hex :: "char \<Rightarrow> char" where
  "lower_hex c =
     (if c = CHR ''A'' then CHR ''a''
      else if c = CHR ''B'' then CHR ''b''
      else if c = CHR ''C'' then CHR ''c''
      else if c = CHR ''D'' then CHR ''d''
      else if c = CHR ''E'' then CHR ''e''
      else if c = CHR ''F'' then CHR ''f''
      else c)"

definition is_space :: "char \<Rightarrow> bool" where
  "is_space c = (c \<in> {CHR 0x09, CHR 0x0A, CHR 0x0B, CHR 0x0C, CHR 0x0D, CHR 0x20})"

fun fromhex :: "string \<Rightarrow> string option" where
  "fromhex [] = Some []"
| "fromhex [c] = (if is_space c then Some [] else None)"
| "fromhex (c # c' # cs) =
     (if is_space c then fromhex (c' # cs)
      else if is_hex c \<and> is_hex c' then
        (case fromhex cs of
           None \<Rightarrow> None
         | Some h \<Rightarrow> Some (lower_hex c # lower_hex c' # h))
      else None)"

definition ObjectId :: "string \<Rightarrow> exn + oid" where
  "ObjectId s =
     (if length s = 24 then
        (case fromhex s of
           None \<Rightarrow> Inl (InvalidId s)
         | Some h \<Rightarrow> Inr (Oid h))
      else Inl (InvalidId s))"

subsection \<open>Documents and the store\<close>

text \<open>
  A stored project is a dictionary \<^verbatim>\<open>d\<close> read with \<^verbatim>\<open>d.get(key)\<close>: apart from
  \<^verbatim>\<open>_id\<close>, every key may be absent (\<open>None\<close>). Modelled from the spec: the classes
  \<^verbatim>\<open>Project\<close> and \<^verbatim>\<open>Donation\<close> of schemas.py, which are not among the sources, give
  the keys and the types of their values (section 3 of the specification: title, founder
  name, founder email, description and category are text, goal_amount a number, featured
  a boolean; a donation has project_id and donor_name text, amount a number and an
  optional message).
\<close>

record project_doc =
  doc_id :: oid
  doc_title :: "string option"
  doc_founder_name :: "string option"
  doc_founder_email :: "string option"
  doc_description :: "string option"
  doc_category :: "string option"
  doc_goal_amount :: "real option"
  doc_featured :: "bool option"

record Donation =
  project_id :: string
  donor_name :: string
  amount :: real
  message :: "string option"

record donation_doc = Donation +
  donation_id :: oid

text \<open>
  The database behind the module variable \<^verbatim>\<open>db\<close>: \<open>coll_project\<close> and
  \<open>coll_donation\<close> are the collections \<^verbatim>\<open>db["project"]\<close> and \<^verbatim>\<open>db["donation"]\<close>,
  in the order the server returns their documents. \<open>name\<close> is the attribute
  \<^verbatim>\<open>db.name\<close> when the object has one; \<open>failure\<close> is \<open>Some m\<close> when the server cannot
  be reached, and every call of the driver then raises an error with message \<open>m\<close>;
  \<open>collection_names\<close> is what the server lists; \<open>new_id\<close> is the identifier the
  driver gives to the next inserted document; \<open>sum_doubles\<close> is the accumulator
  \<^verbatim>\<open>$sum\<close> of the server, which takes the amounts of a group in document order: how
  the server adds doubles is not in the source, and nothing is assumed about it. The
  module variable itself is a \<open>Database option\<close>: \<open>None\<close> when no database was
  configured.
\<close>

record Database =
  name :: "string option"
  failure :: "string option"
  collection_names :: "string list"
  coll_project :: "project_doc list"
  coll_donation :: "donation_doc list"
  new_id :: "nat \<Rightarrow> oid"
  sum_doubles :: "real list \<Rightarrow> real"

definition driver_call :: "Database \<Rightarrow> 'a \<Rightarrow> exn + 'a" where
  "driver_call d result =
     (case failure d of
        Some m \<Rightarrow> Inl (PyMongoError m)
      | None \<Rightarrow> Inr result)"

text \<open>\<^verbatim>\<open>db.list_collection_names()\<close>\<close>

definition list_collection_names :: "Database \<Rightarrow> exn + string list" where
  "list_collection_names d = driver_call d (collection_names d)"

text \<open>\<^verbatim>\<open>db["project"].find_one({"_id": oid})\<close>: the first project with that identifier.\<close>

definition find_one :: "Database \<Rightarrow> oid \<Rightarrow> exn + project_doc option" where
  "find_one d i = driver_call d (find (\<lambda>p. doc_id p = i) (coll_project d))"

text \<open>
  The pipeline \<^verbatim>\<open>[{"$match": {"project_id": pid}}, {"$group": {"_id": "$project_id",
  "total": {"$sum": "$amount"}}}]\<close> on the donation collection: the donations whose
  project_id is the text \<open>pid\<close> are kept, and each distinct project_id among them gives
  one result document with the \<^verbatim>\<open>$sum\<close> of the amounts of its group. No result document
  is made when no donation is kept.
\<close>

record agg_doc =
  agg_id :: string
  total :: real

definition group_sum :: "Database \<Rightarrow> donation_doc list \<Rightarrow> agg_doc list" where
  "group_sum d ds =
     map (\<lambda>k. \<lparr>agg_id = k,
               total = sum_doubles d (map amount (filter (\<lambda>x. project_id x = k) ds))\<rparr>)
         (remdups (map project_id ds))"

definition aggregate :: "Database \<Rightarrow> string \<Rightarrow> exn + agg_doc list" where
  "aggregate d pid =
     driver_call d (group_sum d (filter (\<lambda>x. project_id x = pid) (coll_donation d)))"

text \<open>
  \<^verbatim>\<open>total = 0.0\<close> followed by \<^verbatim>\<open>for agg in donations: total = float(agg.get("total", 0))\<close>
\<close>

definition total_of :: "agg_doc list \<Rightarrow> real" where
  "total_of donations = foldl (\<lambda>t agg. total agg) 0 donations"

subsection \<open>The gateway of database.py\<close>

text \<open>
  \<^verbatim>\<open>filter_dict\<close> of \<^verbatim>\<open>list_projects\<close> is a dictionary with at most the keys
  \<^verbatim>\<open>category\<close> and \<^verbatim>\<open>featured\<close>; an absent key is \<open>None\<close>.
\<close>

record filter_dict =
  category_key :: "string option"
  featured_key :: "bool option"

definition matches :: "filter_dict \<Rightarrow> project_doc \<Rightarrow> bool" where
  "matches f d =
     ((case category_key f of None \<Rightarrow> True | Some c \<Rightarrow> doc_category d = Some c) \<and>
      (case featured_key f of None \<Rightarrow> True | Some b \<Rightarrow> doc_featured d = Some b))"

text \<open>
  Modelled from the spec: \<^verbatim>\<open>get_documents\<close> of database.py, which is not among the
  sources, at the collection \<^verbatim>\<open>"project"\<close>. Section 4.1: find returns all documents
  matching the filter (exact field equality on provided keys); an empty filter returns all
  documents of the collection; a connectivity failure propagates as a generic "store
  unavailable" error.
\<close>

definition get_documents :: "Database option \<Rightarrow> filter_dict \<Rightarrow> exn + project_doc list" where
  "get_documents db f =
     (case db of
        None \<Rightarrow> Inl StoreUnavailable
      | Some d \<Rightarrow> driver_call d (filter (matches f) (coll_project d)))"

text \<open>
  Modelled from the spec: \<^verbatim>\<open>create_document\<close> of database.py, which is not among the
  sources, at the collection \<^verbatim>\<open>"donation"\<close>. Section 4.1: insert writes a new document
  with a generated unique identifier and returns that identifier as text; no validation
  is performed; a connectivity failure propagates as a generic "store unavailable" error.
\<close>

definition create_document :: "Database option \<Rightarrow> Donation \<Rightarrow> (exn + string) \<times> Database option" where
  "create_document db donation =
     (case db of
        None \<Rightarrow> (Inl StoreUnavailable, db)
      | Some d \<Rightarrow>
          (case failure d of
             Some m \<Rightarrow> (Inl (PyMongoError m), db)
           | None \<Rightarrow>
               (let i = new_id d (length (coll_project d) + length (coll_donation d))
                in (Inr (str_oid i),
                    Some (d\<lparr>coll_donation := coll_donation d @
                       [\<lparr>project_id = project_id donation, donor_name = donor_name donation,
                         amount = amount donation, message = message donation,
                         donation_id = i\<rparr>]\<rparr>)))))"

subsection \<open>The response classes\<close>

text \<open>
  The class \<^verbatim>\<open>ProjectOut\<close>. Its field \<^verbatim>\<open>id\<close> is written \<open>id'\<close>, since \<open>id\<close>
  is the identity function of HOL.
\<close>

record ProjectOut =
  id' :: string
  title :: string
  founder_name :: string
  founder_email :: string
  description :: string
  category :: string
  goal_amount :: real
  featured :: bool
  total_donations :: real

text \<open>
  The constructor call \<^verbatim>\<open>ProjectOut(id=..., title=..., ...)\<close>. The four fields read
  with \<^verbatim>\<open>d.get(key)\<close> are \<^verbatim>\<open>None\<close> when the key is absent; pydantic rejects
  \<^verbatim>\<open>None\<close> for a field declared \<^verbatim>\<open>str\<close> and raises a validation error that names
  every rejected field.
\<close>

definition missing :: "string \<Rightarrow> string option \<Rightarrow> string list" where
  "missing k v = (case v of None \<Rightarrow> [k] | Some _ \<Rightarrow> [])"

definition new_ProjectOut ::
  "string \<Rightarrow> string option \<Rightarrow> string option \<Rightarrow> string option \<Rightarrow> string option \<Rightarrow>
   string \<Rightarrow> real \<Rightarrow> bool \<Rightarrow> real \<Rightarrow> exn + ProjectOut" where
  "new_ProjectOut i t fn fe de c g f tot =
     (case (t, fn, fe, de) of
        (Some t', Some fn', Some fe', Some de') \<Rightarrow>
          Inr \<lparr>id' = i, title = t', founder_name = fn', founder_email = fe', description = de',
               category = c, goal_amount = g, featured = f, total_donations = tot\<rparr>
      | _ \<Rightarrow>
          Inl (ValidationError
                 (missing ''title'' t @ missing ''founder_name'' fn @
                  missing ''founder_email'' fe @ missing ''description'' de)))"

text \<open>\<^verbatim>\<open>d.get(key, default)\<close>\<close>

definition get_default :: "'a option \<Rightarrow> 'a \<Rightarrow> 'a" where
  "get_default v dflt = (case v of None \<Rightarrow> dflt | Some x \<Rightarrow> x)"

subsection \<open>GET /api/projects\<close>

text \<open>
  \<^verbatim>\<open>filter_dict = {}\<close>; \<^verbatim>\<open>if category: filter_dict["category"] = category\<close>;
  \<^verbatim>\<open>if featured is not None: filter_dict["featured"] = featured\<close>. The empty text is
  false in Python, as \<^verbatim>\<open>None\<close> is. The query parameters \<^verbatim>\<open>category\<close> and
  \<^verbatim>\<open>featured\<close> are written \<open>category_q\<close> and \<open>featured_q\<close>.
\<close>

definition build_filter :: "string option \<Rightarrow> bool option \<Rightarrow> filter_dict" where
  "build_filter category_q featured_q =
     \<lparr>category_key =
        (case category_q of None \<Rightarrow> None | Some c \<Rightarrow> if c = [] then None else Some c),
      featured_key = featured_q\<rparr>"

text \<open>The body of the loop \<^verbatim>\<open>for d in docs\<close>, up to the value appended to the results.\<close>

definition project_view :: "Database option \<Rightarrow> project_doc \<Rightarrow> exn + ProjectOut" where
  "project_view db d =
     (let pid = str_oid (doc_id d) in
      case db of
        None \<Rightarrow> Inl TypeError
      | Some dd \<Rightarrow>
          (case aggregate dd pid of
             Inl e \<Rightarrow> Inl e
           | Inr donations \<Rightarrow>
               new_ProjectOut pid (doc_title d) (doc_founder_name d) (doc_founder_email d)
                 (doc_description d) (get_default (doc_category d) ''AI'')
                 (get_default (doc_goal_amount d) 0) (get_default (doc_featured d) False)
                 (total_of donations)))"

fun list_projects_loop ::
  "Database option \<Rightarrow> project_doc list \<Rightarrow> ProjectOut list \<Rightarrow> exn + ProjectOut list" where
  "list_projects_loop db [] results = Inr results"
| "list_projects_loop db (d # docs) results =
     (case project_view db d of
        Inl e \<Rightarrow> Inl e
      | Inr v \<Rightarrow> list_projects_loop db docs (results @ [v]))"

definition list_projects ::
  "Database option \<Rightarrow> string option \<Rightarrow> bool option \<Rightarrow> exn + ProjectOut list" where
  "list_projects db category_q featured_q =
     except_Exception
       (case get_documents db (build_filter category_q featured_q) of
          Inl e \<Rightarrow> Inl e
        | Inr docs \<Rightarrow> list_projects_loop db docs [])"

subsection \<open>POST /api/donations\<close>

text \<open>
  The body of the outer \<^verbatim>\<open>try\<close>. The inner \<^verbatim>\<open>try\<close> turns any exception of
  \<^verbatim>\<open>ObjectId(pid)\<close> into the 400 answer. In
  \<^verbatim>\<open>db["project"].find_one({"_id": ObjectId(pid)})\<close> Python subscripts \<^verbatim>\<open>db\<close> first,
  which raises a type error when \<^verbatim>\<open>db\<close> is \<^verbatim>\<open>None\<close>. The result is paired with the
  store after the call.
\<close>

definition create_donation_body ::
  "Database option \<Rightarrow> Donation \<Rightarrow> (exn + string) \<times> Database option" where
  "create_donation_body db donation =
     (let pid = project_id donation in
      case ObjectId pid of
        Inl _ \<Rightarrow> (Inl (HTTPException 400 (Text ''Invalid project_id'')), db)
      | Inr _ \<Rightarrow>
          (case db of
             None \<Rightarrow> (Inl TypeError, db)
           | Some d \<Rightarrow>
               (case ObjectId pid of
                  Inl e \<Rightarrow> (Inl e, db)
                | Inr i \<Rightarrow>
                    (case find_one d i of
                       Inl e \<Rightarrow> (Inl e, db)
                     | Inr None \<Rightarrow> (Inl (HTTPException 404 (Text ''Project not found'')), db)
                     | Inr (Some _) \<Rightarrow> create_document db donation))))"

definition create_donation ::
  "Database option \<Rightarrow> Donation \<Rightarrow> (exn + string) \<times> Database option" where
  "create_donation db donation =
     (case create_donation_body db donation of (r, db') \<Rightarrow> (except_HTTPException r, db'))"



subsection \<open>GET /api/projects/{project_id}\<close>

definition get_project_body :: "Database option \<Rightarrow> string \<Rightarrow> exn + ProjectOut" where
  "get_project_body db project_id' =
     (case db of
        None \<Rightarrow> Inl TypeError
      | Some d \<Rightarrow>
          (case ObjectId project_id' of
             Inl e \<Rightarrow> Inl e
           | Inr i \<Rightarrow>
               (case find_one d i of
                  Inl e \<Rightarrow> Inl e
                | Inr None \<Rightarrow> Inl (HTTPException 404 (Text ''Project not found''))
                | Inr (Some doc) \<Rightarrow>
                    (case aggregate d project_id' of
                       Inl e \<Rightarrow> Inl e
                     | Inr donations \<Rightarrow>
                         new_ProjectOut (str_oid (doc_id doc)) (doc_title doc)
                           (doc_founder_name doc) (doc_founder_email doc) (doc_description doc)
                           (get_default (doc_category doc) ''AI'')
                           (get_default (doc_goal_amount doc) 0)
                           (get_default (doc_featured doc) False)
                           (total_of donations)))))"

definition get_project :: "Database option \<Rightarrow> string \<Rightarrow> exn + ProjectOut" where
  "get_project db project_id' = except_HTTPException (get_project_body db project_id')"

subsection \<open>GET /test\<close>

text \<open>
  The marks of the status texts, as their UTF-8 bytes: U+2705, U+274C, and U+26A0
  followed by U+FE0F.
\<close>

definition check_mark :: string where
  "check_mark = [CHR 0xE2, CHR 0x9C, CHR 0x85]"

definition cross_mark :: string where
  "cross_mark = [CHR 0xE2, CHR 0x9D, CHR 0x8C]"

definition warning_mark :: string where
  "warning_mark = [CHR 0xE2, CHR 0x9A, CHR 0xA0, CHR 0xEF, CHR 0xB8, CHR 0x8F]"

text \<open>
  The value under the key \<^verbatim>\<open>database\<close> is a fixed text, or the f-string made of a
  fixed text and \<^verbatim>\<open>str(e)[:50]\<close>, kept as \<open>StatusError text e\<close>.
\<close>

datatype status =
    Status string
  | StatusError string exn

record response =
  backend :: string
  database :: status
  database_url :: "string option"
  database_name :: "string option"
  connection_status :: string
  collections :: "string list"

text \<open>
  A block of statements that works on the dictionary \<^verbatim>\<open>response\<close> ends with the
  dictionary (\<open>Inr\<close>) or raises an exception, leaving the dictionary as it was at that
  point (\<open>Inl\<close>). \<open>try_except\<close> runs the handler of \<^verbatim>\<open>except Exception as e\<close> on
  the second.
\<close>

definition try_except ::
  "(exn \<times> 's) + 's \<Rightarrow> (exn \<Rightarrow> 's \<Rightarrow> (exn \<times> 's) + 's) \<Rightarrow> (exn \<times> 's) + 's" where
  "try_except body handler =
     (case body of
        Inl (e, s) \<Rightarrow> handler e s
      | Inr s \<Rightarrow> Inr s)"

text \<open>
  \<open>DATABASE_URL\<close> is the result of \<^verbatim>\<open>os.getenv("DATABASE_URL")\<close>: \<open>None\<close> when
  the variable is not set. The empty text is false in Python.
\<close>

definition test_database :: "Database option \<Rightarrow> string option \<Rightarrow> exn + response" where
  "test_database db DATABASE_URL =
     (let response =
        \<lparr>backend = check_mark @ '' Running'',
         database = Status (cross_mark @ '' Not Available''),
         database_url = None,
         database_name = None,
         connection_status = ''Not Connected'',
         collections = []\<rparr>
      in
      case
        try_except
          (case db of
             Some d \<Rightarrow>
               (let response = response
                      \<lparr>database := Status (check_mark @ '' Available''),
                       database_url :=
                         Some (if DATABASE_URL \<noteq> None \<and> DATABASE_URL \<noteq> Some []
                               then check_mark @ '' Set'' else cross_mark @ '' Not Set''),
                       database_name :=
                         Some (case name d of
                                 Some n \<Rightarrow> n
                               | None \<Rightarrow> check_mark @ '' Connected''),
                       connection_status := ''Connected''\<rparr>
                in
                try_except
                  (case list_collection_names d of
                     Inl e \<Rightarrow> Inl (e, response)
                   | Inr collections' \<Rightarrow>
                       Inr (response
                              \<lparr>collections := take 10 collections',
                               database := Status (check_mark @ '' Connected & Working'')\<rparr>))
                  (\<lambda>e response.
                     Inr (response
                            \<lparr>database :=
                               StatusError (warning_mark @ ''  Connected but Error: '') e\<rparr>)))
           | None \<Rightarrow>
               Inr (response
                      \<lparr>database := Status (warning_mark @ ''  Available but not initialized'')\<rparr>))
          (\<lambda>e response.
             Inr (response\<lparr>database := StatusError (cross_mark @ '' Error: '') e\<rparr>))
      of
        Inl (e, _) \<Rightarrow> Inl e
      | Inr response \<Rightarrow> Inr response)"

subsection \<open>A store that adds doubles one after another\<close>

text \<open>
  The sum of two doubles is the exact sum rounded to the nearest double, a tie going to
  the double with an even last bit. A double has 53 significant bits, so around a real
  \<open>x\<close> with \<open>2 ^ e \<le> \<bar>x\<bar> < 2 ^ (e + 1)\<close> the doubles are the multiples of
  \<open>2 ^ (e - 52)\<close>. Sums beyond the largest double and below the smallest normal double
  are not modelled. \<open>double_sum\<close> adds the amounts of a group one after another,
  starting from 0, as Python's \<^verbatim>\<open>sum\<close> does; it is the \<open>sum_doubles\<close> of the sample
  stores.
\<close>

definition round_even :: "real \<Rightarrow> int" where
  "round_even y =
     (let f = \<lfloor>y\<rfloor> in
      if y - of_int f < 1 / 2 then f
      else if 1 / 2 < y - of_int f then f + 1
      else if even f then f else f + 1)"

definition ulp :: "real \<Rightarrow> real" where
  "ulp x = 2 powr (of_int \<lfloor>log 2 \<bar>x\<bar>\<rfloor> - 52)"

definition round_double :: "real \<Rightarrow> real" where
  "round_double x = (if x = 0 then 0 else ulp x * of_int (round_even (x / ulp x)))"

definition double_sum :: "real list \<Rightarrow> real" where
  "double_sum xs = foldl (\<lambda>a x. round_double (a + x)) 0 xs"

subsection \<open>Sample stores\<close>

text \<open>
  The project of the scenario in section 8 of the specification, a project stored
  without category, goal_amount and featured, and a project stored without title.
\<close>

definition mars_rover :: project_doc where
  "mars_rover =
     \<lparr>doc_id = Oid ''507f1f77bcf86cd799439011'',
      doc_title = Some ''Mars Rover'',
      doc_founder_name = Some ''A'',
      doc_founder_email = Some ''a@x.com'',
      doc_description = Some ''d'',
      doc_category = Some ''Space'',
      doc_goal_amount = Some 1000,
      doc_featured = Some False\<rparr>"

definition bare_project :: project_doc where
  "bare_project =
     \<lparr>doc_id = Oid ''507f1f77bcf86cd799439012'',
      doc_title = Some ''Tutor'',
      doc_founder_name = Some ''C'',
      doc_founder_email = Some ''c@x.com'',
      doc_description = Some ''e'',
      doc_category = None,
      doc_goal_amount = None,
      doc_featured = None\<rparr>"

definition untitled_project :: project_doc where
  "untitled_project =
     \<lparr>doc_id = Oid ''507f1f77bcf86cd799439013'',
      doc_title = None,
      doc_founder_name = Some ''D'',
      doc_founder_email = Some ''d@x.com'',
      doc_description = Some ''f'',
      doc_category = Some ''AI'',
      doc_goal_amount = Some 5,
      doc_featured = Some True\<rparr>"

definition gift :: "string \<Rightarrow> real \<Rightarrow> string \<Rightarrow> donation_doc" where
  "gift pid a i =
     \<lparr>project_id = pid, donor_name = ''B'', amount = a, message = None, donation_id = Oid i\<rparr>"

definition store :: "project_doc list \<Rightarrow> donation_doc list \<Rightarrow> Database" where
  "store ps ds =
     \<lparr>name = Some ''moonshot'',
      failure = None,
      collection_names = [''project'', ''donation''],
      coll_project = ps,
      coll_donation = ds,
      new_id = (\<lambda>n. Oid ''65a1f0000000000000000000''),
      sum_doubles = double_sum\<rparr>"

definition mars_rover_out :: "real \<Rightarrow> ProjectOut" where
  "mars_rover_out t =
     \<lparr>id' = ''507f1f77bcf86cd799439011'', title = ''Mars Rover'', founder_name = ''A'',
      founder_email = ''a@x.com'', description = ''d'', category = ''Space'',
      goal_amount = 1000, featured = False, total_donations = t\<rparr>"

definition bare_project_out :: "real \<Rightarrow> ProjectOut" where
  "bare_project_out t =
     \<lparr>id' = ''507f1f77bcf86cd799439012'', title = ''Tutor'', founder_name = ''C'',
      founder_email = ''c@x.com'', description = ''e'', category = ''AI'',
      goal_amount = 0, featured = False, total_donations = t\<rparr>"

text \<open>
  A store where the first project has two donations and the second one, and a store where
  the first project has none.
\<close>

definition funded_store :: Database where
  "funded_store =
     store [mars_rover, bare_project]
       [gift ''507f1f77bcf86cd799439011'' 250 ''65a1f0000000000000000001'',
        gift ''507f1f77bcf86cd799439012'' 40 ''65a1f0000000000000000002'',
        gift ''507f1f77bcf86cd799439011'' 100 ''65a1f0000000000000000003'']"

text \<open>
  Two stores with the same three donations to the one project, the large donation first
  in one and last in the other.
\<close>

definition large_first_store :: Database where
  "large_first_store =
     store [mars_rover]
       [gift ''507f1f77bcf86cd799439011'' 10000000000000000 ''65a1f0000000000000000001'',
        gift ''507f1f77bcf86cd799439011'' 1 ''65a1f0000000000000000002'',
        gift ''507f1f77bcf86cd799439011'' 1 ''65a1f0000000000000000003'']"

definition large_last_store :: Database where
  "large_last_store =
     store [mars_rover]
       [gift ''507f1f77bcf86cd799439011'' 1 ''65a1f0000000000000000002'',
        gift ''507f1f77bcf86cd799439011'' 1 ''65a1f0000000000000000003'',
        gift ''507f1f77bcf86cd799439011'' 10000000000000000 ''65a1f0000000000000000001'']"

definition unfunded_store :: Database where
  "unfunded_store =
     store [mars_rover, bare_project]
       [gift ''507f1f77bcf86cd799439012'' 40 ''65a1f0000000000000000002'']"

text \<open>
  A store whose only project has no category, a store with a project that has no title,
  a store with projects of two categories, and a store whose server cannot be reached.
\<close>

definition legacy_store :: Database where
  "legacy_store = store [bare_project] []"

definition mixed_store :: Database where
  "mixed_store = store [mars_rover, untitled_project] []"

definition two_category_store :: Database where
  "two_category_store =
     store [mars_rover,
            bare_project\<lparr>doc_category := Some ''AI'', doc_featured := Some True\<rparr>] []"

definition down_store :: Database where
  "down_store = (store [] [])\<lparr>failure := Some ''connection refused''\<rparr>"

section \<open>Properties\<close>

subsection \<open>Rounding to doubles\<close>

lemma ulp_binade:
  assumes "2 ^ n \<le> \<bar>x\<bar>" and "\<bar>x\<bar> < 2 ^ Suc n"
  shows "ulp x = 2 powr (real n - 52)"
proof -
  from assms(1) have pos: "0 < \<bar>x\<bar>"
    by (smt (verit) zero_less_power)
  have "\<lfloor>log 2 \<bar>x\<bar>\<rfloor> = int n"
    using assms pos by (simp add: floor_log_eq_powr_iff powr_realpow powr_add)
  then show ?thesis
    by (simp add: ulp_def)
qed

lemma round_even_int: "round_even (of_int k) = k"
  by (simp add: round_even_def)


lemma round_even_numeral: "round_even (numeral n) = numeral n"
  using round_even_int [of "numeral n"] by simp


lemma round_double_eq:
  assumes "x \<noteq> 0" and "ulp x = u" and "x / u = y" and "round_even y = k"
  shows "round_double x = u * of_int k"
  using assms by (simp add: round_double_def)

lemma round_double_1: "round_double 1 = 1"
proof -
  have u: "ulp 1 = 2 powr (- 52)"
    using ulp_binade [of 0 1] by simp
  have y: "(1::real) / 2 powr (- 52) = 4503599627370496"
    by (simp add: powr_minus)
  have "round_double 1 = 2 powr (- 52) * of_int 4503599627370496"
    by (rule round_double_eq [OF _ u y round_even_numeral]) simp
  then show ?thesis
    by (simp add: powr_minus)
qed

lemma round_double_2: "round_double 2 = 2"
proof -
  have u: "ulp 2 = 2 powr (- 51)"
    using ulp_binade [of 1 2] by simp
  have y: "(2::real) / 2 powr (- 51) = 4503599627370496"
    by (simp add: powr_minus)
  have "round_double 2 = 2 powr (- 51) * of_int 4503599627370496"
    by (rule round_double_eq [OF _ u y round_even_numeral]) simp
  then show ?thesis
    by (simp add: powr_minus)
qed





lemma round_double_exact:
  assumes "1 \<le> x" and "x < 2 ^ 53" and "x = of_int m"
  shows "round_double x = x"
proof -
  define e where "e = \<lfloor>log 2 \<bar>x\<bar>\<rfloor>"
  from assms(1) have ax: "\<bar>x\<bar> = x" and x0: "x \<noteq> 0" and xpos: "0 < x"
    by simp_all
  have e0: "0 \<le> e"
    unfolding e_def ax using assms(1) by simp
  have "log 2 x < 53"
    using assms(2) xpos by (simp add: log_less_iff powr_realpow)
  then have e52: "e \<le> 52"
    unfolding e_def ax by linarith
  define j where "j = nat (52 - e)"
  have u: "ulp x = 1 / 2 ^ j"
  proof -
    have "of_int e - 52 = - real j"
      using e52 by (simp add: j_def)
    then have "ulp x = 2 powr (- real j)"
      by (simp add: ulp_def e_def)
    then show ?thesis
      by (simp add: powr_minus powr_realpow divide_inverse)
  qed
  have y: "x / (1 / 2 ^ j) = of_int (m * 2 ^ j)"
    using assms(3) by simp
  have "round_double x = 1 / 2 ^ j * of_int (m * 2 ^ j)"
    by (rule round_double_eq [OF x0 u y round_even_int])
  then show ?thesis
    using assms(3) by simp
qed

lemma round_double_numeral:
  "(numeral k :: real) < 2 ^ 53 \<Longrightarrow> round_double (numeral k) = numeral k"
  by (rule round_double_exact [where m = "numeral k"]) simp_all

lemma round_double_0: "round_double 0 = 0"
  by (simp add: round_double_def)

lemmas sample_defs = store_def mars_rover_def bare_project_def untitled_project_def gift_def
  mars_rover_out_def bare_project_out_def funded_store_def unfunded_store_def
  legacy_store_def mixed_store_def two_category_store_def down_store_def
  large_first_store_def large_last_store_def

lemmas handler_defs = get_project_def get_project_body_def create_donation_def
  create_donation_body_def list_projects_def except_HTTPException_def except_Exception_def
  ObjectId_def is_hex_def is_space_def lower_hex_def find_one_def aggregate_def driver_call_def
  get_documents_def build_filter_def matches_def project_view_def new_ProjectOut_def
  get_default_def missing_def group_sum_def total_of_def create_document_def
  double_sum_def round_double_0 round_double_1 round_double_numeral

subsection \<open>Identifiers, aggregation and view assembly\<close>

lemma is_hex_lower_hex: "is_hex c \<Longrightarrow> is_hex (lower_hex c)"
  by (auto simp: is_hex_def lower_hex_def)

lemma lower_hex_idem: "lower_hex (lower_hex c) = lower_hex c"
  by (simp add: lower_hex_def)

lemma ObjectId_Inl: "ObjectId s = Inl e \<Longrightarrow> e = InvalidId s"
  by (auto simp: ObjectId_def split: if_splits option.splits)

lemma ObjectId_whitespace:
  "ObjectId ''507f1f77bcf86cd7994390  '' = Inr (Oid ''507f1f77bcf86cd7994390'')"
  by (simp add: ObjectId_def is_hex_def is_space_def lower_hex_def)

lemma ObjectId_capitals:
  "ObjectId ''507F1F77BCF86CD799439011'' = Inr (Oid ''507f1f77bcf86cd799439011'')"
  by (simp add: ObjectId_def is_hex_def is_space_def lower_hex_def)




lemma loop_Inr:
  "list_projects_loop db docs acc = Inr vs \<Longrightarrow>
   \<exists>ws. vs = acc @ ws \<and> list_all2 (\<lambda>d v. project_view db d = Inr v) docs ws"
proof (induction docs arbitrary: acc)
  case Nil
  then show ?case by simp
next
  case (Cons d docs)
  then obtain v where v: "project_view db d = Inr v"
    and rest: "list_projects_loop db docs (acc @ [v]) = Inr vs"
    by (auto split: sum.splits)
  from Cons.IH [OF rest] obtain ws where "vs = (acc @ [v]) @ ws"
    and "list_all2 (\<lambda>d v. project_view db d = Inr v) docs ws"
    by blast
  with v show ?case
    by (intro exI [of _ "v # ws"]) simp
qed

lemma loop_complete:
  "list_all2 (\<lambda>d v. project_view db d = Inr v) docs ws \<Longrightarrow>
   list_projects_loop db docs acc = Inr (acc @ ws)"
  by (induction docs ws arbitrary: acc rule: list_all2_induct) auto

lemma loop_Inl:
  "d \<in> set docs \<Longrightarrow> project_view db d = Inl e \<Longrightarrow>
   \<exists>d'\<in>set docs. \<exists>e'. project_view db d' = Inl e' \<and> list_projects_loop db docs acc = Inl e'"
proof (induction docs arbitrary: acc)
  case Nil
  then show ?case by simp
next
  case (Cons x docs)
  show ?case
  proof (cases "project_view db x")
    case (Inl e')
    then show ?thesis by auto
  next
    case (Inr v)
    with Cons.prems have "d \<in> set docs" by auto
    from Cons.IH [OF this Cons.prems(2), of "acc @ [v]"] Inr show ?thesis by auto
  qed
qed

lemma new_ProjectOut_Inr:
  "new_ProjectOut i t fn fe de c g f tot = Inr v \<longleftrightarrow>
   t = Some (title v) \<and> fn = Some (founder_name v) \<and> fe = Some (founder_email v) \<and>
   de = Some (description v) \<and>
   v = \<lparr>id' = i, title = title v, founder_name = founder_name v,
        founder_email = founder_email v, description = description v,
        category = c, goal_amount = g, featured = f, total_donations = tot\<rparr>"
  by (cases t; cases fn; cases fe; cases de) (auto simp: new_ProjectOut_def)

lemma new_ProjectOut_Inl:
  "new_ProjectOut i t fn fe de c g f tot = Inl e \<longleftrightarrow>
   (t = None \<or> fn = None \<or> fe = None \<or> de = None) \<and>
   e = ValidationError (missing ''title'' t @ missing ''founder_name'' fn @
                        missing ''founder_email'' fe @ missing ''description'' de)"
  by (cases t; cases fn; cases fe; cases de) (auto simp: new_ProjectOut_def)

lemma project_view_Some:
  "project_view (Some d) doc =
     (case failure d of
        Some m \<Rightarrow> Inl (PyMongoError m)
      | None \<Rightarrow>
          new_ProjectOut (str_oid (doc_id doc)) (doc_title doc) (doc_founder_name doc)
            (doc_founder_email doc) (doc_description doc)
            (get_default (doc_category doc) ''AI'') (get_default (doc_goal_amount doc) 0)
            (get_default (doc_featured doc) False)
            (total_of (group_sum d (filter (\<lambda>x. project_id x = str_oid (doc_id doc)) (coll_donation d)))))"
  by (simp add: project_view_def aggregate_def driver_call_def Let_def split: option.splits)

lemma project_view_Inr:
  assumes "project_view (Some d) doc = Inr v"
  shows "failure d = None"
    and "id' v = str_oid (doc_id doc)"
    and "total_donations v =
           total_of (group_sum d (filter (\<lambda>x. project_id x = id' v) (coll_donation d)))"
    and "doc_title doc = Some (title v)"
    and "doc_founder_name doc = Some (founder_name v)"
    and "doc_founder_email doc = Some (founder_email v)"
    and "doc_description doc = Some (description v)"
    and "category v = get_default (doc_category doc) ''AI''"
    and "goal_amount v = get_default (doc_goal_amount doc) 0"
    and "featured v = get_default (doc_featured doc) False"
proof -
  from assms show f: "failure d = None"
    by (auto simp: project_view_Some split: option.splits)
  with assms have v: "new_ProjectOut (str_oid (doc_id doc)) (doc_title doc) (doc_founder_name doc)
            (doc_founder_email doc) (doc_description doc)
            (get_default (doc_category doc) ''AI'') (get_default (doc_goal_amount doc) 0)
            (get_default (doc_featured doc) False)
            (total_of (group_sum d (filter (\<lambda>x. project_id x = str_oid (doc_id doc)) (coll_donation d)))) = Inr v"
    by (simp add: project_view_Some)
  from v show i: "id' v = str_oid (doc_id doc)"
    unfolding new_ProjectOut_Inr by (metis ProjectOut.select_convs(1))
  from v have "total_donations v = total_of (group_sum d (filter (\<lambda>x. project_id x = str_oid (doc_id doc)) (coll_donation d)))"
    unfolding new_ProjectOut_Inr by (metis ProjectOut.select_convs(9))
  with i show "total_donations v =
           total_of (group_sum d (filter (\<lambda>x. project_id x = id' v) (coll_donation d)))"
    by simp
  from v show "doc_title doc = Some (title v)" "doc_founder_name doc = Some (founder_name v)"
    "doc_founder_email doc = Some (founder_email v)" "doc_description doc = Some (description v)"
    by (simp_all add: new_ProjectOut_Inr)
  from v show "category v = get_default (doc_category doc) ''AI''"
    unfolding new_ProjectOut_Inr by (metis ProjectOut.select_convs(6))
  from v show "goal_amount v = get_default (doc_goal_amount doc) 0"
    unfolding new_ProjectOut_Inr by (metis ProjectOut.select_convs(7))
  from v show "featured v = get_default (doc_featured doc) False"
    unfolding new_ProjectOut_Inr by (metis ProjectOut.select_convs(8))
qed

lemma project_view_lacking:
  assumes "failure d = None"
    and "doc_title doc = None \<or> doc_founder_name doc = None \<or>
         doc_founder_email doc = None \<or> doc_description doc = None"
  shows "\<exists>fs. project_view (Some d) doc = Inl (ValidationError fs)"
  using assms by (simp add: project_view_Some new_ProjectOut_Inl)

lemma get_documents_Inr:
  "get_documents (Some d) f = Inr docs \<longleftrightarrow>
   failure d = None \<and> docs = filter (matches f) (coll_project d)"
  by (auto simp: get_documents_def driver_call_def split: option.splits)

lemma list_projects_Inr:
  assumes "list_projects (Some d) cq fq = Inr vs"
  shows "failure d = None"
    and "list_all2 (\<lambda>doc v. project_view (Some d) doc = Inr v)
           (filter (matches (build_filter cq fq)) (coll_project d)) vs"
proof -
  from assms obtain docs where docs: "get_documents (Some d) (build_filter cq fq) = Inr docs"
    and loop: "list_projects_loop (Some d) docs [] = Inr vs"
    by (auto simp: list_projects_def except_Exception_def split: sum.splits)
  from docs show "failure d = None"
    by (simp add: get_documents_Inr)
  from docs loop_Inr [OF loop]
  show "list_all2 (\<lambda>doc v. project_view (Some d) doc = Inr v)
          (filter (matches (build_filter cq fq)) (coll_project d)) vs"
    by (simp add: get_documents_Inr)
qed

lemma find_Some_id: "find (\<lambda>p. doc_id p = i) ps = Some doc \<Longrightarrow> doc \<in> set ps \<and> doc_id doc = i"
  by (induction ps) (auto split: if_splits)

lemma find_one_Some:
  "find_one d i = Inr (Some doc) \<Longrightarrow> failure d = None \<and> doc \<in> set (coll_project d) \<and> doc_id doc = i"
  by (auto simp: find_one_def driver_call_def split: option.splits dest: find_Some_id)

lemma aggregate_Inr:
  "aggregate d s = Inr ds \<Longrightarrow>
   total_of ds = total_of (group_sum d (filter (\<lambda>x. project_id x = s) (coll_donation d)))"
  by (auto simp: aggregate_def driver_call_def split: option.splits)

lemma get_project_body_Inr:
  assumes "get_project_body (Some d) s = Inr v"
  shows "\<exists>doc. ObjectId s = Inr (doc_id doc) \<and> find_one d (doc_id doc) = Inr (Some doc) \<and>
           new_ProjectOut (str_oid (doc_id doc)) (doc_title doc) (doc_founder_name doc)
             (doc_founder_email doc) (doc_description doc)
             (get_default (doc_category doc) ''AI'') (get_default (doc_goal_amount doc) 0)
             (get_default (doc_featured doc) False)
             (total_of (group_sum d (filter (\<lambda>x. project_id x = s) (coll_donation d)))) = Inr v"
proof (cases "ObjectId s")
  case (Inl e)
  with assms show ?thesis by (simp add: get_project_body_def)
next
  case i: (Inr i)
  show ?thesis
  proof (cases "find_one d i")
    case (Inl e)
    with assms i show ?thesis by (simp add: get_project_body_def)
  next
    case f: (Inr found)
    show ?thesis
    proof (cases found)
      case None
      with assms i f show ?thesis by (simp add: get_project_body_def)
    next
      case (Some doc)
      with f have fd: "find_one d i = Inr (Some doc)" by simp
      then have id: "doc_id doc = i" by (simp add: find_one_Some)
      show ?thesis
      proof (cases "aggregate d s")
        case (Inl e)
        with assms i fd show ?thesis by (simp add: get_project_body_def)
      next
        case (Inr ds)
        with assms i fd aggregate_Inr [OF Inr] id show ?thesis
          by (intro exI [of _ doc]) (simp add: get_project_body_def)
      qed
    qed
  qed
qed

lemma except_HTTPException_Inr: "except_HTTPException r = Inr v \<longleftrightarrow> r = Inr v"
  by (cases r) (auto simp: except_HTTPException_def split: exn.splits)

lemma get_project_Inr: "get_project db s = Inr v \<longleftrightarrow> get_project_body db s = Inr v"
  by (simp add: get_project_def except_HTTPException_Inr)

subsection \<open>Identifiers that are not valid\<close>

text \<open>
  C1. \<^verbatim>\<open>get_project\<close> builds \<^verbatim>\<open>ObjectId(project_id)\<close> inside its \<^verbatim>\<open>try\<close> without a
  handler of its own, so the \<^verbatim>\<open>InvalidId\<close> raised for the text \<^verbatim>\<open>not-a-valid-id\<close> reaches
  \<^verbatim>\<open>except Exception\<close>: on every database the answer is the 500 server error whose detail
  is the text of that exception, not a 400 answer.
\<close>

theorem get_project_invalid_id:
  "get_project (Some d) ''not-a-valid-id'' =
     Inl (HTTPException 500 (StrOf (InvalidId ''not-a-valid-id'')))"
  by (simp add: get_project_def get_project_body_def ObjectId_def except_HTTPException_def)



subsection \<open>Donations to a project that does not exist\<close>

text \<open>
  C3. When the project_id of a donation is a valid identifier, the server is reachable
  and no stored project has that identifier, \<^verbatim>\<open>create_donation\<close> answers 404 "Project not
  found" and the store, with its donation collection, is unchanged.
\<close>

theorem create_donation_not_found:
  assumes "ObjectId (project_id donation) = Inr i"
    and "failure d = None"
    and "\<forall>p\<in>set (coll_project d). doc_id p \<noteq> i"
  shows "create_donation (Some d) donation =
           (Inl (HTTPException 404 (Text ''Project not found'')), Some d)"
proof -
  from assms(3) have "find (\<lambda>p. doc_id p = i) (coll_project d) = None"
    by (simp add: find_None_iff)
  with assms(2) have "find_one d i = Inr None"
    by (simp add: find_one_def driver_call_def)
  with assms(1) show ?thesis
    by (simp add: create_donation_def create_donation_body_def except_HTTPException_def)
qed

theorem create_donation_not_found_witness:
  "ObjectId (project_id \<lparr>project_id = ''507f1f77bcf86cd799439011'', donor_name = ''B'',
                          amount = 250, message = None\<rparr>) = Inr (Oid ''507f1f77bcf86cd799439011'') \<and>
   failure (store [bare_project] []) = None \<and>
   map doc_id (coll_project (store [bare_project] [])) = [Oid ''507f1f77bcf86cd799439012''] \<and>
   create_donation (Some (store [bare_project] []))
     \<lparr>project_id = ''507f1f77bcf86cd799439011'', donor_name = ''B'', amount = 250, message = None\<rparr> =
     (Inl (HTTPException 404 (Text ''Project not found'')), Some (store [bare_project] []))"
proof -
  have h1: "ObjectId (project_id \<lparr>project_id = ''507f1f77bcf86cd799439011'', donor_name = ''B'',
              amount = 250, message = None\<rparr>) = Inr (Oid ''507f1f77bcf86cd799439011'')"
    by (simp add: ObjectId_def is_hex_def is_space_def lower_hex_def)
  have h2: "failure (store [bare_project] []) = None"
    by (simp add: store_def)
  have h3: "\<forall>p\<in>set (coll_project (store [bare_project] [])). doc_id p \<noteq> Oid ''507f1f77bcf86cd799439011''"
    by (simp add: store_def bare_project_def)
  have h4: "map doc_id (coll_project (store [bare_project] [])) = [Oid ''507f1f77bcf86cd799439012'']"
    by (simp add: store_def bare_project_def)
  show ?thesis
    using h1 h2 h4 create_donation_not_found [OF h1 h2 h3] by simp
qed

subsection \<open>The total of the donations of a project\<close>

lemma list_projects_view:
  assumes "list_projects (Some d) cq fq = Inr vs" and "v \<in> set vs"
  shows "\<exists>doc\<in>set (coll_project d). matches (build_filter cq fq) doc \<and>
           project_view (Some d) doc = Inr v"
proof -
  let ?docs = "filter (matches (build_filter cq fq)) (coll_project d)"
  from assms(2) obtain i where i: "i < length vs" "vs ! i = v"
    by (auto simp: in_set_conv_nth)
  from list_projects_Inr(2) [OF assms(1)]
  have len: "length ?docs = length vs"
    and nth: "\<And>k. k < length vs \<Longrightarrow> project_view (Some d) (?docs ! k) = Inr (vs ! k)"
    by (simp_all add: list_all2_conv_all_nth)
  from i len have "i < length ?docs" by simp
  then have "?docs ! i \<in> set ?docs" by (rule nth_mem)
  then have "?docs ! i \<in> set (coll_project d)" "matches (build_filter cq fq) (?docs ! i)"
    by simp_all
  with nth [OF i(1)] i(2) show ?thesis by auto
qed








subsection \<open>Listing by category\<close>

lemma matches_AI:
  "matches (build_filter (Some ''AI'') None) = (\<lambda>p. doc_category p = Some ''AI'')"
  by (rule ext) (simp add: matches_def build_filter_def)

lemma list_all2_map_eq:
  "list_all2 (\<lambda>x y. f x = g y) xs ys \<Longrightarrow> map g ys = map f xs"
  by (induction xs ys rule: list_all2_induct) auto

lemma build_filter_empty: "build_filter (Some []) fq = build_filter None fq"
  by (simp add: build_filter_def)

lemma matches_no_filter: "matches (build_filter None None) p"
  by (simp add: matches_def build_filter_def)

text \<open>
  C2, as stated, fails. The store \<open>legacy_store\<close> holds one project, stored without a
  category. The listing without filter shows it with category "AI", the default of the
  view; the listing with \<^verbatim>\<open>category="AI"\<close> is empty, because the filter is compared
  with the stored document, which has no category.
\<close>

theorem category_AI_skips_default:
  "list_projects (Some legacy_store) None None = Inr [bare_project_out 0] \<and>
   category (bare_project_out 0) = ''AI'' \<and>
   list_projects (Some legacy_store) (Some ''AI'') None = Inr []"
  by (simp add: sample_defs handler_defs)

text \<open>
  C2, amended. When \<^verbatim>\<open>list_projects\<close> with \<^verbatim>\<open>category="AI"\<close> and no featured filter
  returns, its results are, in order, the stored projects whose stored category is "AI",
  and every returned view has category "AI". A project stored without a category is not
  among them.
\<close>

theorem category_AI_stored:
  assumes "list_projects (Some d) (Some ''AI'') None = Inr vs"
  shows "map id' vs =
           map (\<lambda>p. str_oid (doc_id p))
               (filter (\<lambda>p. doc_category p = Some ''AI'') (coll_project d)) \<and>
         (\<forall>v\<in>set vs. category v = ''AI'')"
proof -
  let ?docs = "filter (\<lambda>p. doc_category p = Some ''AI'') (coll_project d)"
  from list_projects_Inr(2) [OF assms]
  have views: "list_all2 (\<lambda>doc v. project_view (Some d) doc = Inr v) ?docs vs"
    by (simp add: matches_AI)
  then have "list_all2 (\<lambda>doc v. str_oid (doc_id doc) = id' v) ?docs vs"
    by (rule list_all2_mono) (simp add: project_view_Inr(2))
  then have ids: "map id' vs = map (\<lambda>p. str_oid (doc_id p)) ?docs"
    by (rule list_all2_map_eq)
  have "category v = ''AI''" if "v \<in> set vs" for v
  proof -
    from list_projects_view [OF assms that] obtain doc
      where "matches (build_filter (Some ''AI'') None) doc"
        and "project_view (Some d) doc = Inr v"
      by blast
    then show ?thesis
      by (simp add: matches_AI project_view_Inr(8) get_default_def)
  qed
  with ids show ?thesis by blast
qed

theorem category_AI_stored_witness:
  "list_projects (Some two_category_store) (Some ''AI'') None =
     Inr [(bare_project_out 0)\<lparr>featured := True\<rparr>] \<and>
   map id' [(bare_project_out 0)\<lparr>featured := True\<rparr>] =
     map (\<lambda>p. str_oid (doc_id p))
         (filter (\<lambda>p. doc_category p = Some ''AI'') (coll_project two_category_store)) \<and>
   map category [(bare_project_out 0)\<lparr>featured := True\<rparr>] = [''AI'']"
proof -
  have h: "list_projects (Some two_category_store) (Some ''AI'') None =
             Inr [(bare_project_out 0)\<lparr>featured := True\<rparr>]"
    by (simp add: sample_defs handler_defs)
  show ?thesis
    using h category_AI_stored [OF h] by simp
qed

text \<open>
  C9. \<^verbatim>\<open>list_projects\<close> with the empty text as category is \<^verbatim>\<open>list_projects\<close> without
  category, on every database and with every featured filter: the empty text adds no key
  to the filter. With no featured filter either, a call that returns lists every stored
  project, whatever its category.
\<close>

theorem empty_category_no_filter:
  "list_projects db (Some '''') featured_q = list_projects db None featured_q \<and>
   (list_projects (Some d) (Some '''') None = Inr vs \<longrightarrow>
      map id' vs = map (\<lambda>p. str_oid (doc_id p)) (coll_project d))"
proof -
  have eq: "list_projects db (Some '''') fq = list_projects db None fq" for db fq
    by (simp add: list_projects_def build_filter_empty)
  have "map id' vs = map (\<lambda>p. str_oid (doc_id p)) (coll_project d)"
    if "list_projects (Some d) None None = Inr vs"
  proof -
    from list_projects_Inr(2) [OF that]
    have "list_all2 (\<lambda>doc v. project_view (Some d) doc = Inr v) (coll_project d) vs"
      by (simp add: matches_no_filter)
    then have "list_all2 (\<lambda>doc v. str_oid (doc_id doc) = id' v) (coll_project d) vs"
      by (rule list_all2_mono) (simp add: project_view_Inr(2))
    then show ?thesis
      by (rule list_all2_map_eq)
  qed
  with eq show ?thesis by simp
qed

theorem empty_category_no_filter_witness:
  "list_projects (Some two_category_store) (Some '''') None =
     Inr [mars_rover_out 0, (bare_project_out 0)\<lparr>featured := True\<rparr>] \<and>
   map category [mars_rover_out 0, (bare_project_out 0)\<lparr>featured := True\<rparr>] = [''Space'', ''AI''] \<and>
   map id' [mars_rover_out 0, (bare_project_out 0)\<lparr>featured := True\<rparr>] =
     map (\<lambda>p. str_oid (doc_id p)) (coll_project two_category_store)"
proof -
  have h: "list_projects (Some two_category_store) (Some '''') None =
             Inr [mars_rover_out 0, (bare_project_out 0)\<lparr>featured := True\<rparr>]"
    by (simp add: sample_defs handler_defs)
  have c: "map category [mars_rover_out 0, (bare_project_out 0)\<lparr>featured := True\<rparr>] =
             [''Space'', ''AI'']"
    by (simp add: sample_defs)
  show ?thesis
    using h c
      empty_category_no_filter [of "Some two_category_store" None two_category_store
        "[mars_rover_out 0, (bare_project_out 0)\<lparr>featured := True\<rparr>]"]
    by simp
qed

subsection \<open>Documents without a text field\<close>

lemma project_view_Inl:
  assumes "failure d = None" and "project_view (Some d) doc = Inl e"
  shows "\<exists>fs. e = ValidationError fs"
  using assms by (simp add: project_view_Some new_ProjectOut_Inl)

lemma list_projects_lacking:
  assumes "failure d = None"
    and "doc \<in> set (coll_project d)"
    and "matches (build_filter cq fq) doc"
    and "doc_title doc = None \<or> doc_founder_name doc = None \<or>
         doc_founder_email doc = None \<or> doc_description doc = None"
  shows "\<exists>fs. list_projects (Some d) cq fq = Inl (HTTPException 500 (StrOf (ValidationError fs)))"
proof -
  let ?docs = "filter (matches (build_filter cq fq)) (coll_project d)"
  from assms(1) have docs: "get_documents (Some d) (build_filter cq fq) = Inr ?docs"
    by (simp add: get_documents_Inr)
  from assms(2,3) have "doc \<in> set ?docs" by simp
  moreover from project_view_lacking [OF assms(1,4)]
  obtain fs where "project_view (Some d) doc = Inl (ValidationError fs)" ..
  ultimately obtain e' where "\<exists>doc'. project_view (Some d) doc' = Inl e'"
    and loop: "list_projects_loop (Some d) ?docs [] = Inl e'"
    using loop_Inl [of doc ?docs "Some d" "ValidationError fs" "[]"] by blast
  with project_view_Inl [OF assms(1)] obtain fs' where "e' = ValidationError fs'"
    by blast
  with docs loop show ?thesis
    by (simp add: list_projects_def except_Exception_def)
qed

lemma get_project_lacking:
  assumes "ObjectId s = Inr i"
    and "find_one d i = Inr (Some doc)"
    and "doc_title doc = None \<or> doc_founder_name doc = None \<or>
         doc_founder_email doc = None \<or> doc_description doc = None"
  shows "\<exists>fs. get_project (Some d) s = Inl (HTTPException 500 (StrOf (ValidationError fs)))"
proof -
  from assms(2) have f: "failure d = None"
    by (simp add: find_one_Some)
  then obtain ds where ds: "aggregate d s = Inr ds"
    by (simp add: aggregate_def driver_call_def)
  from assms(3) obtain fs where
    "new_ProjectOut (str_oid (doc_id doc)) (doc_title doc) (doc_founder_name doc)
       (doc_founder_email doc) (doc_description doc) (get_default (doc_category doc) ''AI'')
       (get_default (doc_goal_amount doc) 0) (get_default (doc_featured doc) False)
       (total_of ds) = Inl (ValidationError fs)"
    by (simp add: new_ProjectOut_Inl)
  with assms(1,2) ds show ?thesis
    by (simp add: get_project_def get_project_body_def except_HTTPException_def)
qed

lemma get_project_view:
  assumes "get_project (Some d) s = Inr v"
  shows "\<exists>doc\<in>set (coll_project d).
           doc_title doc = Some (title v) \<and>
           doc_founder_name doc = Some (founder_name v) \<and>
           doc_founder_email doc = Some (founder_email v) \<and>
           doc_description doc = Some (description v) \<and>
           category v = get_default (doc_category doc) ''AI'' \<and>
           goal_amount v = get_default (doc_goal_amount doc) 0 \<and>
           featured v = get_default (doc_featured doc) False"
proof -
  from assms have "get_project_body (Some d) s = Inr v"
    by (simp add: get_project_Inr)
  from get_project_body_Inr [OF this] obtain doc where
    f: "find_one d (doc_id doc) = Inr (Some doc)" and
    v: "new_ProjectOut (str_oid (doc_id doc)) (doc_title doc) (doc_founder_name doc)
             (doc_founder_email doc) (doc_description doc)
             (get_default (doc_category doc) ''AI'') (get_default (doc_goal_amount doc) 0)
             (get_default (doc_featured doc) False)
             (total_of (group_sum d (filter (\<lambda>x. project_id x = s) (coll_donation d)))) = Inr v"
    by blast
  from f have mem: "doc \<in> set (coll_project d)"
    by (simp add: find_one_Some)
  from v have "doc_title doc = Some (title v)" "doc_founder_name doc = Some (founder_name v)"
    "doc_founder_email doc = Some (founder_email v)" "doc_description doc = Some (description v)"
    by (simp_all add: new_ProjectOut_Inr)
  moreover from v have "category v = get_default (doc_category doc) ''AI''"
    unfolding new_ProjectOut_Inr by (metis ProjectOut.select_convs(6))
  moreover from v have "goal_amount v = get_default (doc_goal_amount doc) 0"
    unfolding new_ProjectOut_Inr by (metis ProjectOut.select_convs(7))
  moreover from v have "featured v = get_default (doc_featured doc) False"
    unfolding new_ProjectOut_Inr by (metis ProjectOut.select_convs(8))
  ultimately show ?thesis
    using mem by blast
qed

text \<open>
  C8. Let a stored project lack title, founder_name, founder_email or description. When
  that project is among the documents \<^verbatim>\<open>get_documents\<close> hands to \<^verbatim>\<open>list_projects\<close>
  (every stored project, when no filter is given), \<^verbatim>\<open>list_projects\<close> answers 500
  with the text of a validation error; when \<^verbatim>\<open>get_project\<close> finds that project, it
  answers the same. Conversely
  every view that either handler returns comes from a stored project that has these four
  fields, and only category, goal_amount and featured are filled with the defaults "AI",
  0 and false when absent.
\<close>

theorem missing_text_field_500:
  "(doc_title doc = None \<or> doc_founder_name doc = None \<or>
    doc_founder_email doc = None \<or> doc_description doc = None \<longrightarrow>
      (get_documents (Some d) (build_filter category_q featured_q) = Inr docs \<and>
       doc \<in> set docs \<longrightarrow>
         (\<exists>fs. list_projects (Some d) category_q featured_q =
                 Inl (HTTPException 500 (StrOf (ValidationError fs))))) \<and>
      (ObjectId s = Inr i \<and> find_one d i = Inr (Some doc) \<longrightarrow>
         (\<exists>fs. get_project (Some d) s =
                 Inl (HTTPException 500 (StrOf (ValidationError fs)))))) \<and>
   ((list_projects (Some d) category_q featured_q = Inr vs \<and> v \<in> set vs) \<or>
    get_project (Some d) s = Inr v \<longrightarrow>
      (\<exists>doc'\<in>set (coll_project d).
         doc_title doc' = Some (title v) \<and>
         doc_founder_name doc' = Some (founder_name v) \<and>
         doc_founder_email doc' = Some (founder_email v) \<and>
         doc_description doc' = Some (description v) \<and>
         category v = get_default (doc_category doc') ''AI'' \<and>
         goal_amount v = get_default (doc_goal_amount doc') 0 \<and>
         featured v = get_default (doc_featured doc') False))"
proof -
  have "\<exists>doc'\<in>set (coll_project d).
         doc_title doc' = Some (title v) \<and>
         doc_founder_name doc' = Some (founder_name v) \<and>
         doc_founder_email doc' = Some (founder_email v) \<and>
         doc_description doc' = Some (description v) \<and>
         category v = get_default (doc_category doc') ''AI'' \<and>
         goal_amount v = get_default (doc_goal_amount doc') 0 \<and>
         featured v = get_default (doc_featured doc') False"
    if "list_projects (Some d) category_q featured_q = Inr vs" and "v \<in> set vs"
  proof -
    from list_projects_view [OF that] obtain doc' where "doc' \<in> set (coll_project d)"
      and "project_view (Some d) doc' = Inr v"
      by blast
    with project_view_Inr(4-10) [of d doc' v] show ?thesis
      by blast
  qed
  moreover have "failure d = None \<and> doc \<in> set (coll_project d) \<and>
      matches (build_filter category_q featured_q) doc"
    if "get_documents (Some d) (build_filter category_q featured_q) = Inr docs" and "doc \<in> set docs"
    using that by (simp add: get_documents_Inr)
  ultimately show ?thesis
    using list_projects_lacking [of d doc category_q featured_q] get_project_lacking [of s i d doc]
      get_project_view [of d s v]
    by blast
qed

theorem missing_text_field_500_witness:
  "doc_title untitled_project = None \<and>
   get_documents (Some mixed_store) (build_filter None None) = Inr [mars_rover, untitled_project] \<and>
   untitled_project \<in> set [mars_rover, untitled_project] \<and>
   ObjectId ''507f1f77bcf86cd799439013'' = Inr (Oid ''507f1f77bcf86cd799439013'') \<and>
   find_one mixed_store (Oid ''507f1f77bcf86cd799439013'') = Inr (Some untitled_project) \<and>
   (\<exists>fs. list_projects (Some mixed_store) None None =
           Inl (HTTPException 500 (StrOf (ValidationError fs)))) \<and>
   (\<exists>fs. get_project (Some mixed_store) ''507f1f77bcf86cd799439013'' =
           Inl (HTTPException 500 (StrOf (ValidationError fs)))) \<and>
   get_project (Some legacy_store) ''507f1f77bcf86cd799439012'' = Inr (bare_project_out 0) \<and>
   coll_project legacy_store = [bare_project] \<and>
   doc_title bare_project = Some (title (bare_project_out 0)) \<and>
   doc_founder_name bare_project = Some (founder_name (bare_project_out 0)) \<and>
   doc_founder_email bare_project = Some (founder_email (bare_project_out 0)) \<and>
   doc_description bare_project = Some (description (bare_project_out 0)) \<and>
   category (bare_project_out 0) = get_default (doc_category bare_project) ''AI'' \<and>
   goal_amount (bare_project_out 0) = get_default (doc_goal_amount bare_project) 0 \<and>
   featured (bare_project_out 0) = get_default (doc_featured bare_project) False"
proof -
  have h1: "doc_title untitled_project = None"
    by (simp add: sample_defs)
  have h2: "get_documents (Some mixed_store) (build_filter None None) =
              Inr [mars_rover, untitled_project] \<and>
            untitled_project \<in> set [mars_rover, untitled_project]"
    by (simp add: mixed_store_def store_def get_documents_def driver_call_def matches_def
        build_filter_def)
  have h3: "ObjectId ''507f1f77bcf86cd799439013'' = Inr (Oid ''507f1f77bcf86cd799439013'')"
    by (simp add: ObjectId_def is_hex_def is_space_def lower_hex_def)
  have h4: "find_one mixed_store (Oid ''507f1f77bcf86cd799439013'') = Inr (Some untitled_project)"
    by (simp add: sample_defs find_one_def driver_call_def)
  have h5: "get_project (Some legacy_store) ''507f1f77bcf86cd799439012'' = Inr (bare_project_out 0)"
    by (simp add: sample_defs handler_defs)
  have h6: "coll_project legacy_store = [bare_project]"
    by (simp add: legacy_store_def store_def)
  have h7: "doc_title bare_project = Some (title (bare_project_out 0)) \<and>
            doc_founder_name bare_project = Some (founder_name (bare_project_out 0)) \<and>
            doc_founder_email bare_project = Some (founder_email (bare_project_out 0)) \<and>
            doc_description bare_project = Some (description (bare_project_out 0)) \<and>
            category (bare_project_out 0) = get_default (doc_category bare_project) ''AI'' \<and>
            goal_amount (bare_project_out 0) = get_default (doc_goal_amount bare_project) 0 \<and>
            featured (bare_project_out 0) = get_default (doc_featured bare_project) False"
    by (simp add: bare_project_def bare_project_out_def get_default_def)
  show ?thesis
    using h1 h2 h3 h4 h5 h6 h7
      missing_text_field_500 [of untitled_project mixed_store None None
        "[mars_rover, untitled_project]" "''507f1f77bcf86cd799439013''"
        "Oid ''507f1f77bcf86cd799439013''" "[]" "bare_project_out 0"]
      missing_text_field_500 [of untitled_project legacy_store None None
        "[mars_rover, untitled_project]" "''507f1f77bcf86cd799439012''"
        "Oid ''507f1f77bcf86cd799439012''" "[]" "bare_project_out 0"]
    by blast
qed

subsection \<open>Client errors pass the generic handler\<close>

lemma create_document_no_HTTPException:
  "fst (create_document db donation) \<noteq> Inl (HTTPException c m)"
  by (simp add: create_document_def Let_def split: option.splits)

lemma create_donation_body_client_error:
  assumes "create_donation_body db donation = (Inl (HTTPException c m), db')"
  shows "c = 400 \<or> c = 404"
proof (cases "ObjectId (project_id donation)")
  case (Inl e)
  with assms show ?thesis by (simp add: create_donation_body_def)
next
  case i: (Inr i)
  show ?thesis
  proof (cases db)
    case None
    with assms i show ?thesis by (simp add: create_donation_body_def)
  next
    case (Some d)
    show ?thesis
    proof (cases "find_one d i")
      case (Inl e)
      then obtain msg where "e = PyMongoError msg"
        by (auto simp: find_one_def driver_call_def split: option.splits)
      with assms i Some Inl show ?thesis by (simp add: create_donation_body_def)
    next
      case (Inr found)
      show ?thesis
      proof (cases found)
        case None
        with assms i Some Inr show ?thesis by (simp add: create_donation_body_def)
      next
        case (Some doc)
        with assms i \<open>db = Some d\<close> Inr
        have "fst (create_document db donation) = Inl (HTTPException c m)"
          by (simp add: create_donation_body_def)
        with create_document_no_HTTPException show ?thesis by blast
      qed
    qed
  qed
qed

lemma get_project_body_client_error:
  assumes "get_project_body db s = Inl (HTTPException c m)"
  shows "c = 404"
proof (cases db)
  case None
  with assms show ?thesis by (simp add: get_project_body_def)
next
  case (Some d)
  show ?thesis
  proof (cases "ObjectId s")
    case (Inl e)
    with assms Some ObjectId_Inl [OF Inl] show ?thesis
      by (simp add: get_project_body_def)
  next
    case i: (Inr i)
    show ?thesis
    proof (cases "find_one d i")
      case (Inl e)
      then obtain msg where "e = PyMongoError msg"
        by (auto simp: find_one_def driver_call_def split: option.splits)
      with assms i Some Inl show ?thesis by (simp add: get_project_body_def)
    next
      case (Inr found)
      show ?thesis
      proof (cases found)
        case None
        with assms i Some Inr show ?thesis by (simp add: get_project_body_def)
      next
        case doc: (Some doc)
        show ?thesis
        proof (cases "aggregate d s")
          case (Inl e)
          then obtain msg where "e = PyMongoError msg"
            by (auto simp: aggregate_def driver_call_def split: option.splits)
          with assms i Some Inr doc Inl show ?thesis by (simp add: get_project_body_def)
        next
          case ds: (Inr ds)
          with assms i Some Inr doc show ?thesis
            by (simp add: get_project_body_def new_ProjectOut_Inl)
        qed
      qed
    qed
  qed
qed

text \<open>
  C10. When the body of the \<^verbatim>\<open>try\<close> of \<^verbatim>\<open>create_donation\<close> or of \<^verbatim>\<open>get_project\<close>
  raises an \<^verbatim>\<open>HTTPException\<close>, the handler answers with that same exception, status
  and detail unchanged, and with the store the body left; the status is 400 or 404 in
  \<^verbatim>\<open>create_donation\<close> and 404 in \<^verbatim>\<open>get_project\<close>, never 500.
\<close>

theorem client_errors_reraised:
  "(create_donation_body db donation = (Inl (HTTPException c m), db') \<longrightarrow>
      create_donation db donation = (Inl (HTTPException c m), db') \<and> (c = 400 \<or> c = 404)) \<and>
   (get_project_body db s = Inl (HTTPException c m) \<longrightarrow>
      get_project db s = Inl (HTTPException c m) \<and> c = 404)"
  using create_donation_body_client_error [of db donation c m db']
    get_project_body_client_error [of db s c m]
  by (simp add: create_donation_def get_project_def except_HTTPException_def)

theorem client_errors_reraised_witness:
  "create_donation_body None
     \<lparr>project_id = ''not-a-valid-id'', donor_name = ''B'', amount = 250, message = None\<rparr> =
     (Inl (HTTPException 400 (Text ''Invalid project_id'')), None) \<and>
   create_donation None
     \<lparr>project_id = ''not-a-valid-id'', donor_name = ''B'', amount = 250, message = None\<rparr> =
     (Inl (HTTPException 400 (Text ''Invalid project_id'')), None) \<and>
   create_donation_body (Some legacy_store)
     \<lparr>project_id = ''507f1f77bcf86cd799439011'', donor_name = ''B'', amount = 250, message = None\<rparr> =
     (Inl (HTTPException 404 (Text ''Project not found'')), Some legacy_store) \<and>
   create_donation (Some legacy_store)
     \<lparr>project_id = ''507f1f77bcf86cd799439011'', donor_name = ''B'', amount = 250, message = None\<rparr> =
     (Inl (HTTPException 404 (Text ''Project not found'')), Some legacy_store) \<and>
   get_project_body (Some legacy_store) ''507f1f77bcf86cd799439011'' =
     Inl (HTTPException 404 (Text ''Project not found'')) \<and>
   get_project (Some legacy_store) ''507f1f77bcf86cd799439011'' =
     Inl (HTTPException 404 (Text ''Project not found''))"
proof -
  have h1: "create_donation_body (Some legacy_store)
     \<lparr>project_id = ''507f1f77bcf86cd799439011'', donor_name = ''B'', amount = 250, message = None\<rparr> =
     (Inl (HTTPException 404 (Text ''Project not found'')), Some legacy_store)"
    by (simp add: sample_defs create_donation_body_def ObjectId_def is_hex_def is_space_def
        lower_hex_def find_one_def driver_call_def)
  have h2: "get_project_body (Some legacy_store) ''507f1f77bcf86cd799439011'' =
     Inl (HTTPException 404 (Text ''Project not found''))"
    by (simp add: sample_defs get_project_body_def ObjectId_def is_hex_def is_space_def
        lower_hex_def find_one_def driver_call_def)
  have h3: "create_donation_body None
     \<lparr>project_id = ''not-a-valid-id'', donor_name = ''B'', amount = 250, message = None\<rparr> =
     (Inl (HTTPException 400 (Text ''Invalid project_id'')), None)"
    by (simp add: create_donation_body_def ObjectId_def)
  show ?thesis
    using h1 h2 h3
      client_errors_reraised [of None
        "\<lparr>project_id = ''not-a-valid-id'', donor_name = ''B'', amount = 250, message = None\<rparr>"
        400 "Text ''Invalid project_id''" None "''507f1f77bcf86cd799439011''"]
      client_errors_reraised [of "Some legacy_store"
        "\<lparr>project_id = ''507f1f77bcf86cd799439011'', donor_name = ''B'', amount = 250,
          message = None\<rparr>" 404 "Text ''Project not found''" "Some legacy_store"
        "''507f1f77bcf86cd799439011''"]
    by simp
qed

subsection \<open>The diagnostic endpoint\<close>

text \<open>
  C7. \<^verbatim>\<open>test_database\<close> returns a response for every database and every value of
  the environment variable, and raises nothing. Without a database the status text says
  so; when \<^verbatim>\<open>list_collection_names\<close> raises \<open>e\<close>, the status text is "Connected but
  Error" followed by the text of \<open>e\<close>; when it returns, the response carries the first ten
  names.
\<close>

theorem test_database_never_raises:
  "\<exists>r. test_database db DATABASE_URL = Inr r \<and>
        (db = None \<longrightarrow>
           database r = Status (warning_mark @ ''  Available but not initialized'')) \<and>
        (\<forall>d e. db = Some d \<and> list_collection_names d = Inl e \<longrightarrow>
           database r = StatusError (warning_mark @ ''  Connected but Error: '') e) \<and>
        (\<forall>d cs. db = Some d \<and> list_collection_names d = Inr cs \<longrightarrow>
           database r = Status (check_mark @ '' Connected & Working'') \<and>
           collections r = take 10 cs)"
proof (cases db)
  case None
  then show ?thesis
    by (simp add: test_database_def try_except_def)
next
  case (Some d)
  then show ?thesis
    by (cases "list_collection_names d") (simp_all add: test_database_def try_except_def Let_def)
qed

theorem test_database_never_raises_witness:
  "list_collection_names down_store = Inl (PyMongoError ''connection refused'') \<and>
   (\<exists>r. test_database (Some down_store) None = Inr r \<and>
         database r = StatusError (warning_mark @ ''  Connected but Error: '')
                        (PyMongoError ''connection refused'')) \<and>
   (\<exists>r. test_database None None = Inr r \<and>
         database r = Status (warning_mark @ ''  Available but not initialized''))"
proof -
  have h: "list_collection_names down_store = Inl (PyMongoError ''connection refused'')"
    by (simp add: down_store_def store_def list_collection_names_def driver_call_def)
  show ?thesis
    using h test_database_never_raises [of "Some down_store" None]
      test_database_never_raises [of None None]
    by auto
qed

end
